theory Spec2Isabelle
  imports Main "HOL-Library.Sublist"
begin

section \<open>The key-value store underneath both services\<close>

text \<open>
  The services \<^verbatim>\<open>notesService\<close> and \<^verbatim>\<open>authService\<close> keep all their data in
  \<^verbatim>\<open>AsyncStorage\<close>, a string-keyed store of texts. The store and \<^verbatim>\<open>JSON\<close> are
  platform libraries, not code of the repository. They are modelled by what the services
  can observe of them.
\<close>

record NoteInput =
  title :: string
  body :: string
  imageUri :: "string option"

record Note = NoteInput +
  id_note :: string
  createdAt :: int
  updatedAt :: int

text \<open>
  The fields \<^verbatim>\<open>username\<close> and \<^verbatim>\<open>password\<close> of a \<^verbatim>\<open>User\<close> (suffixed, since the services'
  parameters have the same names).
\<close>

record User =
  username_of :: string
  password_of :: string

text \<open>
  A JavaScript exception. \<open>Error msg\<close> is \<^verbatim>\<open>new Error(msg)\<close>, \<open>SyntaxError\<close> is what
  \<^verbatim>\<open>JSON.parse\<close> throws, \<open>StorageFault\<close> is a rejection of an \<^verbatim>\<open>AsyncStorage\<close> call.
\<close>

datatype exn = Error string | SyntaxError | StorageFault

text \<open>
  A stored text, represented by what \<^verbatim>\<open>JSON.parse\<close> makes of it: \<open>NotesJson ns\<close> is the
  text \<^verbatim>\<open>JSON.stringify\<close> yields for the \<^verbatim>\<open>Note[]\<close> \<open>ns\<close>, \<open>UsersJson us\<close> the one for the
  \<^verbatim>\<open>User[]\<close> \<open>us\<close>, and \<open>Verbatim s\<close> is the string \<open>s\<close> stored as it is, which is no JSON
  document (\<open>Verbatim []\<close> is the empty string). A JSON document of another shape than the
  type annotation of the reading function expects is outside this typed model and is
  treated like a text that does not parse.
\<close>

datatype content = Verbatim string | NotesJson "Note list" | UsersJson "User list"

text \<open>
  The store: its contents, and whether the next \<^verbatim>\<open>getItem\<close> / \<^verbatim>\<open>setItem\<close> call is
  rejected (the store's faults are inputs of the model).
\<close>

record storage =
  items :: "string \<rightharpoonup> content"
  getItem_throws :: bool
  setItem_throws :: bool

definition getItem :: "storage \<Rightarrow> string \<Rightarrow> exn + content option" where
  "getItem st key = (if getItem_throws st then Inl StorageFault else Inr (items st key))"

definition setItem :: "storage \<Rightarrow> string \<Rightarrow> content \<Rightarrow> exn + storage" where
  "setItem st key v =
     (if setItem_throws st then Inl StorageFault
      else Inr (st\<lparr>items := (items st)(key \<mapsto> v)\<rparr>))"

text \<open>JavaScript truthiness of a string: only the empty string is falsy.\<close>

definition truthy :: "content \<Rightarrow> bool" where
  "truthy t = (t \<noteq> Verbatim [])"

fun JSON_parse_notes :: "content \<Rightarrow> exn + Note list" where
  "JSON_parse_notes (NotesJson ns) = Inr ns"
| "JSON_parse_notes (Verbatim s) = Inl SyntaxError"
| "JSON_parse_notes (UsersJson us) = Inl SyntaxError"

fun JSON_parse_users :: "content \<Rightarrow> exn + User list" where
  "JSON_parse_users (UsersJson us) = Inr us"
| "JSON_parse_users (Verbatim s) = Inl SyntaxError"
| "JSON_parse_users (NotesJson ns) = Inl SyntaxError"

section \<open>notesService\<close>

definition getNotesKey :: "string \<Rightarrow> string" where
  "getNotesKey username = ''@notes_'' @ username"

text \<open>
  \<^verbatim>\<open>getNotes\<close>: the whole body is inside \<^verbatim>\<open>try\<close>, and the \<^verbatim>\<open>catch\<close> returns \<^verbatim>\<open>[]\<close>.
\<close>

definition getNotes :: "storage \<Rightarrow> string \<Rightarrow> Note list" where
  "getNotes st username =
     (case getItem st (getNotesKey username) of
        Inl e \<Rightarrow> []
      | Inr None \<Rightarrow> []
      | Inr (Some notesJson) \<Rightarrow>
          (if truthy notesJson
           then (case JSON_parse_notes notesJson of Inl e \<Rightarrow> [] | Inr notes \<Rightarrow> notes)
           else []))"

text \<open>
  \<^verbatim>\<open>getNote\<close>: \<^verbatim>\<open>notes.find(note => note.id === noteId) || null\<close>; \<open>None\<close> is \<^verbatim>\<open>null\<close>.
  Neither \<^verbatim>\<open>getNotes\<close> nor \<^verbatim>\<open>find\<close> throws, so the \<^verbatim>\<open>catch\<close> is never entered.
\<close>

definition getNote :: "storage \<Rightarrow> string \<Rightarrow> string \<Rightarrow> Note option" where
  "getNote st username noteId = find (\<lambda>note. id_note note = noteId) (getNotes st username)"

text \<open>\<^verbatim>\<open>Number.prototype.toString\<close> on an integer: its decimal digits, with a sign.\<close>

definition digit :: "nat \<Rightarrow> char" where
  "digit d = ''0123456789'' ! d"

function toString_nat :: "nat \<Rightarrow> string" where
  "toString_nat n = (if n < 10 then [digit n] else toString_nat (n div 10) @ [digit (n mod 10)])"
  by pat_completeness auto
termination
  by (relation "measure (\<lambda>n. n)") auto

declare toString_nat.simps [simp del]

definition toString :: "int \<Rightarrow> string" where
  "toString i = (if i < 0 then CHR ''-'' # toString_nat (nat (- i)) else toString_nat (nat i))"

text \<open>
  \<^verbatim>\<open>createNote\<close>. The clock is read three times (\<open>now1\<close> for the id, \<open>now2\<close> for
  \<^verbatim>\<open>createdAt\<close>, \<open>now3\<close> for \<^verbatim>\<open>updatedAt\<close>), and \<open>rnd\<close> is the value of
  \<^verbatim>\<open>Math.random().toString(36).substr(2, 9)\<close>; all four are inputs of the model, in the
  order the source evaluates them. Any exception in the body is replaced by
  \<^verbatim>\<open>Error('Failed to create note')\<close>.
\<close>

definition createNote ::
  "storage \<Rightarrow> string \<Rightarrow> NoteInput \<Rightarrow> int \<Rightarrow> string \<Rightarrow> int \<Rightarrow> int \<Rightarrow> exn + (Note \<times> storage)" where
  "createNote st username note now1 rnd now2 now3 =
     (let notes = getNotes st username;
          newNote = \<lparr>title = title note, body = body note, imageUri = imageUri note,
                     id_note = toString now1 @ rnd, createdAt = now2, updatedAt = now3\<rparr>
      in case setItem st (getNotesKey username) (NotesJson (notes @ [newNote])) of
           Inl e \<Rightarrow> Inl (Error ''Failed to create note'')
         | Inr st' \<Rightarrow> Inr (newNote, st'))"

text \<open>
  The argument of \<^verbatim>\<open>updateNote\<close>, of type \<^verbatim>\<open>Partial<Omit<Note, 'id' | 'createdAt'>>\<close>:
  \<open>None\<close> is a key that is absent. The editing screen passes \<^verbatim>\<open>imageUri\<close> with the value
  \<^verbatim>\<open>undefined\<close> for a note without image, which is \<open>Some None\<close>. A title or body that is
  present is a string, as the type \<^verbatim>\<open>Note\<close> of the result requires.
\<close>

record updates =
  title_upd :: "string option"
  body_upd :: "string option"
  imageUri_upd :: "string option option"
  updatedAt_upd :: "int option"

text \<open>The argument \<^verbatim>\<open>{title: t}\<close>: only a title.\<close>

definition title_only :: "string \<Rightarrow> updates" where
  "title_only t = \<lparr>title_upd = Some t, body_upd = None, imageUri_upd = None, updatedAt_upd = None\<rparr>"

text \<open>
  \<^verbatim>\<open>{...notes[index], ...updates, updatedAt: Date.now()}\<close>: the keys present in
  \<^verbatim>\<open>updates\<close> replace those of the stored note, then \<^verbatim>\<open>updatedAt\<close> is set to the clock
  reading \<open>now\<close>, whatever \<^verbatim>\<open>updates\<close> holds for it.
\<close>

definition spread :: "Note \<Rightarrow> updates \<Rightarrow> int \<Rightarrow> Note" where
  "spread old upd now =
     old\<lparr>title := (case title_upd upd of None \<Rightarrow> title old | Some t \<Rightarrow> t),
         body := (case body_upd upd of None \<Rightarrow> body old | Some b \<Rightarrow> b),
         imageUri := (case imageUri_upd upd of None \<Rightarrow> imageUri old | Some u \<Rightarrow> u),
         updatedAt := now\<rparr>"

text \<open>\<^verbatim>\<open>Array.prototype.findIndex\<close>; \<open>None\<close> is the result \<^verbatim>\<open>-1\<close>.\<close>

fun findIndex :: "('a \<Rightarrow> bool) \<Rightarrow> 'a list \<Rightarrow> nat option" where
  "findIndex P [] = None"
| "findIndex P (x # xs) = (if P x then Some 0 else map_option Suc (findIndex P xs))"

text \<open>
  \<^verbatim>\<open>updateNote\<close>: \<open>updateNote_try\<close> is the \<^verbatim>\<open>try\<close> block, in which
  \<^verbatim>\<open>throw new Error('Note not found')\<close> is raised; \<open>updateNote\<close> adds the \<^verbatim>\<open>catch\<close>, which
  replaces every exception of the block by \<^verbatim>\<open>Error('Failed to update note')\<close>.
\<close>

definition updateNote_try ::
  "storage \<Rightarrow> string \<Rightarrow> string \<Rightarrow> updates \<Rightarrow> int \<Rightarrow> exn + (Note \<times> storage)" where
  "updateNote_try st username noteId upd now =
     (let notes = getNotes st username
      in case findIndex (\<lambda>note. id_note note = noteId) notes of
           None \<Rightarrow> Inl (Error ''Note not found'')
         | Some index \<Rightarrow>
             (let notes' = notes[index := spread (notes ! index) upd now]
              in case setItem st (getNotesKey username) (NotesJson notes') of
                   Inl e \<Rightarrow> Inl e
                 | Inr st' \<Rightarrow> Inr (notes' ! index, st')))"

definition updateNote ::
  "storage \<Rightarrow> string \<Rightarrow> string \<Rightarrow> updates \<Rightarrow> int \<Rightarrow> exn + (Note \<times> storage)" where
  "updateNote st username noteId upd now =
     (case updateNote_try st username noteId upd now of
        Inl e \<Rightarrow> Inl (Error ''Failed to update note'')
      | Inr r \<Rightarrow> Inr r)"

definition deleteNote :: "storage \<Rightarrow> string \<Rightarrow> string \<Rightarrow> exn + storage" where
  "deleteNote st username noteId =
     (let notes = getNotes st username;
          filteredNotes = filter (\<lambda>note. id_note note \<noteq> noteId) notes
      in case setItem st (getNotesKey username) (NotesJson filteredNotes) of
           Inl e \<Rightarrow> Inl (Error ''Failed to delete note'')
         | Inr st' \<Rightarrow> Inr st')"

section \<open>authService\<close>

definition USERS_KEY :: string where
  "USERS_KEY = ''@users''"

definition CURRENT_USER_KEY :: string where
  "CURRENT_USER_KEY = ''@current_user''"

text \<open>The object \<^verbatim>\<open>{ success: boolean; error?: string }\<close> that the service resolves to.\<close>

record result =
  success :: bool
  error :: "string option"

text \<open>
  \<^verbatim>\<open>signUp\<close>: every exception of the body (a rejected read, a text that does not parse, a
  rejected write) ends in the \<^verbatim>\<open>catch\<close>, which returns the failure \<^verbatim>\<open>'Failed to sign up'\<close>.
  The function returns the result object together with the store it leaves.
\<close>

definition signUp :: "storage \<Rightarrow> string \<Rightarrow> string \<Rightarrow> result \<times> storage" where
  "signUp st username password =
     (case getItem st USERS_KEY of
        Inl e \<Rightarrow> (\<lparr>success = False, error = Some ''Failed to sign up''\<rparr>, st)
      | Inr usersJson \<Rightarrow>
          (case (case usersJson of
                   None \<Rightarrow> Inr []
                 | Some j \<Rightarrow> if truthy j then JSON_parse_users j else Inr []) of
             Inl e \<Rightarrow> (\<lparr>success = False, error = Some ''Failed to sign up''\<rparr>, st)
           | Inr users \<Rightarrow>
               if list_ex (\<lambda>user. username_of user = username) users
               then (\<lparr>success = False, error = Some ''Username already exists''\<rparr>, st)
               else
                 (case setItem st USERS_KEY
                         (UsersJson (users @ [\<lparr>username_of = username, password_of = password\<rparr>])) of
                    Inl e \<Rightarrow> (\<lparr>success = False, error = Some ''Failed to sign up''\<rparr>, st)
                  | Inr st' \<Rightarrow> (\<lparr>success = True, error = None\<rparr>, st'))))"

definition login :: "storage \<Rightarrow> string \<Rightarrow> string \<Rightarrow> result \<times> storage" where
  "login st username password =
     (case getItem st USERS_KEY of
        Inl e \<Rightarrow> (\<lparr>success = False, error = Some ''Failed to login''\<rparr>, st)
      | Inr usersJson \<Rightarrow>
          (case (case usersJson of
                   None \<Rightarrow> Inr []
                 | Some j \<Rightarrow> if truthy j then JSON_parse_users j else Inr []) of
             Inl e \<Rightarrow> (\<lparr>success = False, error = Some ''Failed to login''\<rparr>, st)
           | Inr users \<Rightarrow>
               (case find (\<lambda>u. username_of u = username \<and> password_of u = password) users of
                  None \<Rightarrow> (\<lparr>success = False, error = Some ''Invalid username or password''\<rparr>, st)
                | Some user \<Rightarrow>
                    (case setItem st CURRENT_USER_KEY (Verbatim username) of
                       Inl e \<Rightarrow> (\<lparr>success = False, error = Some ''Failed to login''\<rparr>, st)
                     | Inr st' \<Rightarrow> (\<lparr>success = True, error = None\<rparr>, st')))))"

section \<open>The notes list screen: search\<close>

text \<open>
  Strings are byte strings here, so \<^verbatim>\<open>trim\<close> and \<^verbatim>\<open>toLowerCase\<close> are modelled on ASCII:
  the white space of \<^verbatim>\<open>trim\<close> is tab, line feed, vertical tab, form feed, carriage return
  and space, and \<^verbatim>\<open>toLowerCase\<close> maps \<^verbatim>\<open>A\<close> .. \<^verbatim>\<open>Z\<close> to \<^verbatim>\<open>a\<close> .. \<^verbatim>\<open>z\<close>.
\<close>

definition isWhiteSpace :: "char \<Rightarrow> bool" where
  "isWhiteSpace c = (c \<in> set [CHR 0x09, CHR 0x0A, CHR 0x0B, CHR 0x0C, CHR 0x0D, CHR '' ''])"

definition trim :: "string \<Rightarrow> string" where
  "trim s = rev (dropWhile isWhiteSpace (rev (dropWhile isWhiteSpace s)))"

definition toLowerCase_char :: "char \<Rightarrow> char" where
  "toLowerCase_char c =
     (if 65 \<le> (of_char c :: nat) \<and> (of_char c :: nat) \<le> 90 then char_of (of_char c + 32 :: nat) else c)"

definition toLowerCase :: "string \<Rightarrow> string" where
  "toLowerCase s = map toLowerCase_char s"

text \<open>\<^verbatim>\<open>s.includes(q)\<close>: \<open>q\<close> starts at some position of \<open>s\<close>.\<close>

fun startsWith :: "string \<Rightarrow> string \<Rightarrow> bool" where
  "startsWith s [] = True"
| "startsWith [] (q # qs) = False"
| "startsWith (c # cs) (q # qs) = (c = q \<and> startsWith cs qs)"

fun includes_str :: "string \<Rightarrow> string \<Rightarrow> bool" where
  "includes_str [] q = (q = [])"
| "includes_str (c # cs) q = (startsWith (c # cs) q \<or> includes_str cs q)"

text \<open>
  The first half of \<^verbatim>\<open>applyFiltersAndSort\<close>: the value of its variable \<^verbatim>\<open>filtered\<close>.
  The test is \<^verbatim>\<open>query.trim()\<close>, the pattern is \<^verbatim>\<open>query.toLowerCase()\<close>, untrimmed.
\<close>

definition filtered :: "Note list \<Rightarrow> string \<Rightarrow> Note list" where
  "filtered notesToFilter query =
     (if trim query \<noteq> []
      then (let lowerQuery = toLowerCase query
            in filter (\<lambda>note. includes_str (toLowerCase (title note)) lowerQuery \<or>
                               includes_str (toLowerCase (body note)) lowerQuery) notesToFilter)
      else notesToFilter)"

text \<open>
  The second half: a copy of \<^verbatim>\<open>filtered\<close> is sorted with a comparator chosen by the sort
  option. \<^verbatim>\<open>Array.prototype.sort\<close> is stable; it is modelled by a stable insertion sort.
  \<^verbatim>\<open>String.prototype.localeCompare\<close> depends on the locale of the device and is a parameter.
\<close>

datatype SortOption = UpdatedDesc | UpdatedAsc | TitleAsc | TitleDesc

fun compareNotes :: "(string \<Rightarrow> string \<Rightarrow> int) \<Rightarrow> SortOption \<Rightarrow> Note \<Rightarrow> Note \<Rightarrow> int" where
  "compareNotes localeCompare UpdatedDesc a b = updatedAt b - updatedAt a"
| "compareNotes localeCompare UpdatedAsc a b = updatedAt a - updatedAt b"
| "compareNotes localeCompare TitleAsc a b = localeCompare (title a) (title b)"
| "compareNotes localeCompare TitleDesc a b = localeCompare (title b) (title a)"

fun insertBy :: "('a \<Rightarrow> 'a \<Rightarrow> int) \<Rightarrow> 'a \<Rightarrow> 'a list \<Rightarrow> 'a list" where
  "insertBy cmp x [] = [x]"
| "insertBy cmp x (y # ys) = (if cmp x y \<le> 0 then x # y # ys else y # insertBy cmp x ys)"

definition sortBy :: "('a \<Rightarrow> 'a \<Rightarrow> int) \<Rightarrow> 'a list \<Rightarrow> 'a list" where
  "sortBy cmp xs = foldr (insertBy cmp) xs []"

definition applyFiltersAndSort ::
  "(string \<Rightarrow> string \<Rightarrow> int) \<Rightarrow> Note list \<Rightarrow> string \<Rightarrow> SortOption \<Rightarrow> Note list" where
  "applyFiltersAndSort localeCompare notesToFilter query sortOption =
     sortBy (compareNotes localeCompare sortOption) (filtered notesToFilter query)"

section \<open>Concrete stores for the examples\<close>

definition store_empty :: storage where
  "store_empty = \<lparr>items = Map.empty, getItem_throws = False, setItem_throws = False\<rparr>"

definition store_of :: "string \<Rightarrow> Note list \<Rightarrow> storage" where
  "store_of username ns =
     \<lparr>items = [getNotesKey username \<mapsto> NotesJson ns], getItem_throws = False, setItem_throws = False\<rparr>"

definition store_malformed :: storage where
  "store_malformed =
     \<lparr>items = [getNotesKey ''bob'' \<mapsto> Verbatim ''[{oops''], getItem_throws = False, setItem_throws = False\<rparr>"

definition note_a :: Note where
  "note_a = \<lparr>title = ''A'', body = ''B'', imageUri = None, id_note = ''5x'', createdAt = 5, updatedAt = 7\<rparr>"

definition note_dup :: Note where
  "note_dup = \<lparr>title = ''D'', body = ''E'', imageUri = Some ''file:///img.png'', id_note = ''5x'',
                createdAt = 6, updatedAt = 6\<rparr>"

definition note_c :: Note where
  "note_c = \<lparr>title = ''Cherry'', body = ''red'', imageUri = None, id_note = ''8y'',
              createdAt = 8, updatedAt = 8\<rparr>"

definition store_two :: storage where
  "store_two =
     \<lparr>items = [getNotesKey ''alice'' \<mapsto> NotesJson [note_a], getNotesKey ''bob'' \<mapsto> NotesJson [note_c]],
      getItem_throws = False, setItem_throws = False\<rparr>"

definition input_ab :: NoteInput where
  "input_ab = \<lparr>title = ''A'', body = ''B'', imageUri = None\<rparr>"

definition store_dup :: storage where
  "store_dup = store_of ''alice'' [note_c, note_a, note_dup]"

definition note_tick :: Note where
  "note_tick = \<lparr>title = ''A'', body = ''B'', imageUri = None, id_note = ''5x'', createdAt = 5, updatedAt = 6\<rparr>"

definition note_new :: Note where
  "note_new = \<lparr>title = ''A'', body = ''B'', imageUri = None, id_note = ''5x'', createdAt = 5, updatedAt = 5\<rparr>"

definition store_users :: storage where
  "store_users =
     \<lparr>items = [USERS_KEY \<mapsto> UsersJson [\<lparr>username_of = ''alice'', password_of = ''secret''\<rparr>]],
      getItem_throws = False, setItem_throws = False\<rparr>"

section \<open>Facts about the store and the list functions\<close>

lemma getNotes_throws: "getItem_throws st \<Longrightarrow> getNotes st username = []"
  by (simp add: getNotes_def getItem_def)


lemma getNotesKey_inj: "getNotesKey a = getNotesKey b \<longleftrightarrow> a = b"
  by (simp add: getNotesKey_def)

lemma getNotes_other_key:
  "setItem st key v = Inr st' \<Longrightarrow> key \<noteq> getNotesKey username \<Longrightarrow>
   getNotes st' username = getNotes st username \<and>
   items st' (getNotesKey username) = items st (getNotesKey username)"
  by (auto simp: setItem_def getNotes_def getItem_def split: if_splits)

lemma findIndex_Some:
  "findIndex P xs = Some i \<Longrightarrow> i < length xs \<and> P (xs ! i) \<and> (\<forall>j<i. \<not> P (xs ! j))"
proof (induction xs arbitrary: i)
  case Nil
  then show ?case by simp
next
  case (Cons x xs)
  show ?case
  proof (cases "P x")
    case True
    with Cons.prems show ?thesis by simp
  next
    case False
    with Cons.prems obtain k where k: "findIndex P xs = Some k" "i = Suc k"
      by auto
    from Cons.IH [OF k(1)] False k(2) show ?thesis
      by (auto simp: less_Suc_eq_0_disj)
  qed
qed

lemma findIndex_None: "findIndex P xs = None \<longleftrightarrow> (\<forall>x\<in>set xs. \<not> P x)"
  by (induction xs) auto

lemma find_findIndex: "find P xs = map_option (\<lambda>i. xs ! i) (findIndex P xs)"
  by (induction xs) (auto simp: option.map_comp comp_def)

lemma getNotes_read:
  "\<not> getItem_throws st \<Longrightarrow> items st (getNotesKey username) = Some (NotesJson ns) \<Longrightarrow>
   getNotes st username = ns"
  by (simp add: getNotes_def getItem_def truthy_def)

lemma deleteNote_ok:
  "\<not> setItem_throws st \<Longrightarrow>
   deleteNote st username noteId =
     Inr (st\<lparr>items := (items st)(getNotesKey username \<mapsto>
            NotesJson (filter (\<lambda>note. id_note note \<noteq> noteId) (getNotes st username)))\<rparr>)"
  by (simp add: deleteNote_def setItem_def)


lemma createNote_Inr:
  "createNote st username note now1 rnd now2 now3 = Inr (n, st') \<Longrightarrow>
   n = \<lparr>title = title note, body = body note, imageUri = imageUri note,
        id_note = toString now1 @ rnd, createdAt = now2, updatedAt = now3\<rparr>
   \<and> setItem st (getNotesKey username) (NotesJson (getNotes st username @ [n])) = Inr st'"
  by (auto simp: createNote_def Let_def split: sum.splits)

lemma updateNote_Inr:
  "updateNote st username noteId upd now = Inr (n, st') \<Longrightarrow>
   \<exists>i. findIndex (\<lambda>note. id_note note = noteId) (getNotes st username) = Some i
     \<and> n = spread (getNotes st username ! i) upd now
     \<and> setItem st (getNotesKey username)
           (NotesJson ((getNotes st username)[i := spread (getNotes st username ! i) upd now])) = Inr st'"
  by (auto simp: updateNote_def updateNote_try_def Let_def findIndex_Some
      split: sum.splits option.splits)

lemma deleteNote_Inr:
  "deleteNote st username noteId = Inr st' \<Longrightarrow>
   setItem st (getNotesKey username)
     (NotesJson (filter (\<lambda>note. id_note note \<noteq> noteId) (getNotes st username))) = Inr st'"
  by (auto simp: deleteNote_def Let_def split: sum.splits)

lemma createNote_ok:
  "\<not> setItem_throws st \<Longrightarrow>
   createNote st username note now1 rnd now2 now3 =
     Inr (\<lparr>title = title note, body = body note, imageUri = imageUri note,
           id_note = toString now1 @ rnd, createdAt = now2, updatedAt = now3\<rparr>,
          st\<lparr>items := (items st)(getNotesKey username \<mapsto> NotesJson (getNotes st username @
            [\<lparr>title = title note, body = body note, imageUri = imageUri note,
           id_note = toString now1 @ rnd, createdAt = now2, updatedAt = now3\<rparr>]))\<rparr>)"
  by (simp add: createNote_def setItem_def Let_def)

lemma updateNote_ok:
  assumes "findIndex (\<lambda>note. id_note note = noteId) (getNotes st username) = Some i"
    and "\<not> setItem_throws st"
  shows "updateNote st username noteId upd now =
     Inr (spread (getNotes st username ! i) upd now,
          st\<lparr>items := (items st)(getNotesKey username \<mapsto>
            NotesJson ((getNotes st username)[i := spread (getNotes st username ! i) upd now]))\<rparr>)"
proof -
  from findIndex_Some [OF assms(1)] have "i < length (getNotes st username)"
    by simp
  with assms show ?thesis
    by (simp add: updateNote_def updateNote_try_def setItem_def Let_def)
qed

lemma findIndex_first:
  "i < length xs \<Longrightarrow> P (xs ! i) \<Longrightarrow> (\<forall>k<i. \<not> P (xs ! k)) \<Longrightarrow> findIndex P xs = Some i"
proof (induction xs arbitrary: i)
  case Nil
  then show ?case by simp
next
  case (Cons x xs)
  show ?case
  proof (cases i)
    case 0
    with Cons.prems show ?thesis by simp
  next
    case (Suc m)
    with Cons.prems have "\<not> P x" by auto
    moreover have "findIndex P xs = Some m"
    proof (rule Cons.IH)
      show "m < length xs" using Cons.prems Suc by simp
      show "P (xs ! m)" using Cons.prems Suc by simp
      show "\<forall>k<m. \<not> P (xs ! k)"
      proof (intro allI impI)
        fix k assume "k < m"
        then have "Suc k < i" using Suc by simp
        with Cons.prems(3) have "\<not> P ((x # xs) ! Suc k)" by blast
        then show "\<not> P (xs ! k)" by simp
      qed
    qed
    ultimately show ?thesis using Suc by simp
  qed
qed

lemma getNotes_after_update:
  assumes "i < length (getNotes st username)"
  shows "getNotes (st\<lparr>items := (items st)(getNotesKey username \<mapsto> NotesJson ns)\<rparr>) username = ns"
proof (rule getNotes_read)
  have "\<not> getItem_throws st"
    using assms getNotes_throws [of st username] by auto
  then show "\<not> getItem_throws (st\<lparr>items := (items st)(getNotesKey username \<mapsto> NotesJson ns)\<rparr>)"
    by simp
  show "items (st\<lparr>items := (items st)(getNotesKey username \<mapsto> NotesJson ns)\<rparr>) (getNotesKey username)
        = Some (NotesJson ns)"
    by simp
qed

lemma getNotes_store_of: "getNotes (store_of username ns) username = ns"
  by (rule getNotes_read) (simp_all add: store_of_def)

lemma toString_nat_nonempty: "toString_nat n \<noteq> []"
  by (subst toString_nat.simps) simp

lemma toString_nonempty: "toString i \<noteq> []"
  by (simp add: toString_def toString_nat_nonempty)

lemma find_append_fresh: "(\<forall>x\<in>set xs. \<not> P x) \<Longrightarrow> P y \<Longrightarrow> find P (xs @ [y]) = Some y"
  by (induction xs) auto

lemma toString_5: "toString 5 = ''5''"
  by (simp add: toString_def toString_nat.simps digit_def)

lemma JSON_parse_users_Inr: "JSON_parse_users j = Inr users \<Longrightarrow> j = UsersJson users"
  by (cases j) simp_all




section \<open>Reading notes degrades to the empty list\<close>

text \<open>
  C6. \<^verbatim>\<open>getNotes\<close> returns the empty list, and raises nothing, in each of three cases: the
  read of the store is rejected, the key is absent, or the stored text is no JSON document
  (the empty string included).
\<close>

theorem getNotes_degrades_to_empty:
  assumes "getItem st (getNotesKey username) = Inl e
         \<or> getItem st (getNotesKey username) = Inr None
         \<or> (\<exists>s. getItem st (getNotesKey username) = Inr (Some (Verbatim s)))"
  shows "getNotes st username = []"
  using assms by (auto simp: getNotes_def)

theorem getNotes_degrades_to_empty_witness:
  "getItem (store_of ''bob'' [note_a]\<lparr>getItem_throws := True\<rparr>) (getNotesKey ''bob'') = Inl StorageFault
   \<and> getNotes (store_of ''bob'' [note_a]\<lparr>getItem_throws := True\<rparr>) ''bob'' = []
   \<and> getItem store_empty (getNotesKey ''bob'') = Inr None
   \<and> getNotes store_empty ''bob'' = []
   \<and> getItem store_malformed (getNotesKey ''bob'') = Inr (Some (Verbatim ''[{oops''))
   \<and> getNotes store_malformed ''bob'' = []"
proof -
  have a: "getItem (store_of ''bob'' [note_a]\<lparr>getItem_throws := True\<rparr>) (getNotesKey ''bob'')
             = Inl StorageFault"
    by (simp add: getItem_def)
  have b: "getItem store_empty (getNotesKey ''bob'') = Inr None"
    by (simp add: getItem_def store_empty_def)
  have c: "getItem store_malformed (getNotesKey ''bob'') = Inr (Some (Verbatim ''[{oops''))"
    by (simp add: getItem_def store_malformed_def)
  show ?thesis
    using a b c
      getNotes_degrades_to_empty
        [of "store_of ''bob'' [note_a]\<lparr>getItem_throws := True\<rparr>" "''bob''" StorageFault]
      getNotes_degrades_to_empty [of store_empty "''bob''"]
      getNotes_degrades_to_empty [of store_malformed "''bob''"]
    by blast
qed

section \<open>Updating a note that is not there\<close>

text \<open>
  C1. With no note of the given id, the \<^verbatim>\<open>try\<close> block of \<^verbatim>\<open>updateNote\<close> raises
  \<^verbatim>\<open>Error('Note not found')\<close>, but the function's own \<^verbatim>\<open>catch\<close> replaces it: the caller
  gets \<^verbatim>\<open>Error('Failed to update note')\<close>, the very exception it gets when the note exists
  and the write to the store is rejected.
\<close>

theorem updateNote_not_found_is_generic_failure:
  "updateNote_try store_empty ''alice'' ''5x'' (title_only ''C'') 9 = Inl (Error ''Note not found'')
   \<and> updateNote store_empty ''alice'' ''5x'' (title_only ''C'') 9
       = Inl (Error ''Failed to update note'')
   \<and> updateNote (store_of ''alice'' [note_a]\<lparr>setItem_throws := True\<rparr>) ''alice'' ''5x''
        (title_only ''C'') 9
       = Inl (Error ''Failed to update note'')"
  by (simp add: updateNote_def updateNote_try_def getNotes_def getItem_def setItem_def
      store_empty_def store_of_def truthy_def note_a_def)

section \<open>Deleting a note\<close>



section \<open>One collection per username\<close>

text \<open>
  C9. The storage keys of two distinct usernames differ, and \<^verbatim>\<open>createNote\<close>,
  \<^verbatim>\<open>updateNote\<close> and \<^verbatim>\<open>deleteNote\<close> called for one username leave the stored collection of
  every other username as it is: what \<^verbatim>\<open>getNotes\<close> returns for the other username is the
  same before and after, so a note created for one user never shows up in the list of
  another.
\<close>

theorem notes_of_other_user_untouched:
  assumes "username \<noteq> other"
  shows "getNotesKey username \<noteq> getNotesKey other
     \<and> (createNote st username input now1 rnd now2 now3 = Inr (n, st') \<longrightarrow>
          items st' (getNotesKey other) = items st (getNotesKey other)
          \<and> getNotes st' other = getNotes st other)
     \<and> (updateNote st username noteId upd now = Inr (n, st') \<longrightarrow>
          items st' (getNotesKey other) = items st (getNotesKey other)
          \<and> getNotes st' other = getNotes st other)
     \<and> (deleteNote st username noteId = Inr st' \<longrightarrow>
          items st' (getNotesKey other) = items st (getNotesKey other)
          \<and> getNotes st' other = getNotes st other)"
proof -
  have k: "getNotesKey username \<noteq> getNotesKey other"
    using assms by (simp add: getNotesKey_inj)
  have c: "items st' (getNotesKey other) = items st (getNotesKey other)
          \<and> getNotes st' other = getNotes st other"
    if "createNote st username input now1 rnd now2 now3 = Inr (n, st')"
    using createNote_Inr [OF that] getNotes_other_key [OF _ k] by blast
  have u: "items st' (getNotesKey other) = items st (getNotesKey other)
          \<and> getNotes st' other = getNotes st other"
    if "updateNote st username noteId upd now = Inr (n, st')"
    using updateNote_Inr [OF that] getNotes_other_key [OF _ k] by blast
  have d: "items st' (getNotesKey other) = items st (getNotesKey other)
          \<and> getNotes st' other = getNotes st other"
    if "deleteNote st username noteId = Inr st'"
    using deleteNote_Inr [OF that] getNotes_other_key [OF _ k] by blast
  from k c u d show ?thesis by blast
qed

theorem notes_of_other_user_untouched_witness:
  "''alice'' \<noteq> ''bob''
   \<and> getNotesKey ''alice'' \<noteq> getNotesKey ''bob''
   \<and> (\<exists>n st'. createNote store_two ''alice'' input_ab 9 ''z'' 9 9 = Inr (n, st')
         \<and> getNotes st' ''bob'' = [note_c])
   \<and> (\<exists>n st'. updateNote store_two ''alice'' ''5x'' (title_only ''C'') 9 = Inr (n, st')
         \<and> getNotes st' ''bob'' = [note_c])
   \<and> (\<exists>st'. deleteNote store_two ''alice'' ''5x'' = Inr st'
         \<and> getNotes st' ''bob'' = [note_c])"
proof -
  have ne: "''alice'' \<noteq> ''bob''" by simp
  have w: "\<not> setItem_throws store_two" by (simp add: store_two_def)
  have b: "getNotes store_two ''bob'' = [note_c]"
    by (rule getNotes_read) (simp_all add: store_two_def getNotesKey_def)
  have a: "getNotes store_two ''alice'' = [note_a]"
    by (rule getNotes_read) (simp_all add: store_two_def getNotesKey_def)
  obtain n1 s1 where c: "createNote store_two ''alice'' input_ab 9 ''z'' 9 9 = Inr (n1, s1)"
    using createNote_ok [OF w] by blast
  have "findIndex (\<lambda>note. id_note note = ''5x'') (getNotes store_two ''alice'') = Some 0"
    by (simp add: a note_a_def)
  then obtain n2 s2 where u: "updateNote store_two ''alice'' ''5x'' (title_only ''C'') 9 = Inr (n2, s2)"
    using updateNote_ok [OF _ w] by blast
  obtain s3 where d: "deleteNote store_two ''alice'' ''5x'' = Inr s3"
    using deleteNote_ok [OF w] by blast
  note iso = notes_of_other_user_untouched [OF ne, where st = store_two]
  from iso [where input = input_ab and ?now1.0 = 9 and rnd = "''z''" and ?now2.0 = 9
      and ?now3.0 = 9 and n = n1 and st' = s1] c
  have c': "getNotes s1 ''bob'' = [note_c]" by (simp add: b)
  from iso [where noteId = "''5x''" and upd = "title_only ''C''" and now = 9 and n = n2
      and st' = s2] u
  have u': "getNotes s2 ''bob'' = [note_c]" by (simp add: b)
  from iso [where noteId = "''5x''" and st' = s3] d
  have d': "getNotes s3 ''bob'' = [note_c]" by (simp add: b)
  from ne iso c c' u u' d d' show ?thesis by blast
qed

section \<open>Several notes with one id\<close>

text \<open>
  C10. Let the note at position \<open>i\<close> of a user's stored collection be the first one with
  the given id (later notes may have the same id). Then \<^verbatim>\<open>getNote\<close> returns that note;
  \<^verbatim>\<open>updateNote\<close>, when the store accepts the write, replaces that note alone and leaves
  every other position of the collection as it is, later notes of the same id included;
  and \<^verbatim>\<open>deleteNote\<close> leaves the collection without any note of that id.
\<close>

theorem duplicate_ids_first_match:
  assumes "i < length (getNotes st username)"
    and "id_note (getNotes st username ! i) = noteId"
    and "\<forall>k<i. id_note (getNotes st username ! k) \<noteq> noteId"
    and "\<not> setItem_throws st"
  shows "getNote st username noteId = Some (getNotes st username ! i)
     \<and> (\<exists>st'. updateNote st username noteId upd now
                 = Inr (spread (getNotes st username ! i) upd now, st')
            \<and> getNotes st' username
                 = (getNotes st username)[i := spread (getNotes st username ! i) upd now]
            \<and> (\<forall>k<length (getNotes st username). k \<noteq> i \<longrightarrow>
                   getNotes st' username ! k = getNotes st username ! k))
     \<and> (\<exists>st'. deleteNote st username noteId = Inr st'
            \<and> getNotes st' username
                 = filter (\<lambda>note. id_note note \<noteq> noteId) (getNotes st username)
            \<and> (\<forall>note\<in>set (getNotes st' username). id_note note \<noteq> noteId))"
proof -
  let ?ns = "getNotes st username"
  have fi: "findIndex (\<lambda>note. id_note note = noteId) ?ns = Some i"
    using assms(1-3) by (intro findIndex_first) auto
  have g: "getNote st username noteId = Some (?ns ! i)"
    by (simp add: getNote_def find_findIndex fi)
  let ?ns' = "?ns[i := spread (?ns ! i) upd now]"
  let ?st' = "st\<lparr>items := (items st)(getNotesKey username \<mapsto> NotesJson ?ns')\<rparr>"
  have u1: "updateNote st username noteId upd now = Inr (spread (?ns ! i) upd now, ?st')"
    using updateNote_ok [OF fi assms(4)] by simp
  have u2: "getNotes ?st' username = ?ns'"
    using assms(1) by (rule getNotes_after_update)
  have u3: "\<forall>k<length ?ns. k \<noteq> i \<longrightarrow> getNotes ?st' username ! k = ?ns ! k"
    unfolding u2 by simp
  let ?fs = "filter (\<lambda>note. id_note note \<noteq> noteId) ?ns"
  let ?st'' = "st\<lparr>items := (items st)(getNotesKey username \<mapsto> NotesJson ?fs)\<rparr>"
  have d1: "deleteNote st username noteId = Inr ?st''"
    using assms(4) by (simp add: deleteNote_ok)
  have d2: "getNotes ?st'' username = ?fs"
    using assms(1) by (rule getNotes_after_update)
  have d3: "\<forall>note\<in>set (getNotes ?st'' username). id_note note \<noteq> noteId"
    unfolding d2 by simp
  from u1 u2 u3 have u: "\<exists>st'. updateNote st username noteId upd now
                 = Inr (spread (?ns ! i) upd now, st')
            \<and> getNotes st' username = ?ns'
            \<and> (\<forall>k<length ?ns. k \<noteq> i \<longrightarrow> getNotes st' username ! k = ?ns ! k)"
    by blast
  from d1 d2 d3 have d: "\<exists>st'. deleteNote st username noteId = Inr st'
            \<and> getNotes st' username = ?fs
            \<and> (\<forall>note\<in>set (getNotes st' username). id_note note \<noteq> noteId)"
    by blast
  from g u d show ?thesis by blast
qed

theorem duplicate_ids_first_match_witness:
  "Suc 0 < length (getNotes store_dup ''alice'')
   \<and> id_note (getNotes store_dup ''alice'' ! Suc 0) = ''5x''
   \<and> id_note (getNotes store_dup ''alice'' ! 2) = ''5x''
   \<and> id_note (getNotes store_dup ''alice'' ! 0) \<noteq> ''5x''
   \<and> \<not> setItem_throws store_dup
   \<and> getNote store_dup ''alice'' ''5x'' = Some note_a
   \<and> (\<exists>st'. updateNote store_dup ''alice'' ''5x'' (title_only ''C'') 9
                 = Inr (note_a\<lparr>title := ''C'', updatedAt := 9\<rparr>, st')
            \<and> getNotes st' ''alice'' = [note_c, note_a\<lparr>title := ''C'', updatedAt := 9\<rparr>, note_dup])
   \<and> (\<exists>st'. deleteNote store_dup ''alice'' ''5x'' = Inr st'
            \<and> getNotes st' ''alice'' = [note_c])"
proof -
  have ns: "getNotes store_dup ''alice'' = [note_c, note_a, note_dup]"
    by (simp add: store_dup_def getNotes_store_of)
  have h1: "Suc 0 < length (getNotes store_dup ''alice'')"
    by (simp add: ns)
  have h2: "id_note (getNotes store_dup ''alice'' ! Suc 0) = ''5x''"
    by (simp add: ns note_a_def)
  have h2': "id_note (getNotes store_dup ''alice'' ! 2) = ''5x''"
    by (simp add: ns note_dup_def)
  have h3: "\<forall>k<Suc 0. id_note (getNotes store_dup ''alice'' ! k) \<noteq> ''5x''"
    by (simp add: ns note_c_def)
  have h4: "\<not> setItem_throws store_dup"
    by (simp add: store_dup_def store_of_def)
  have sp: "spread note_a (title_only ''C'') 9 = note_a\<lparr>title := ''C'', updatedAt := 9\<rparr>"
    by (simp add: spread_def title_only_def)
  have fl: "filter (\<lambda>note. id_note note \<noteq> ''5x'') [note_c, note_a, note_dup] = [note_c]"
    by (simp add: note_a_def note_c_def note_dup_def)
  from duplicate_ids_first_match [OF h1 h2 h3 h4, of "title_only ''C''" 9]
  have "getNote store_dup ''alice'' ''5x'' = Some note_a
   \<and> (\<exists>st'. updateNote store_dup ''alice'' ''5x'' (title_only ''C'') 9
                 = Inr (note_a\<lparr>title := ''C'', updatedAt := 9\<rparr>, st')
            \<and> getNotes st' ''alice'' = [note_c, note_a\<lparr>title := ''C'', updatedAt := 9\<rparr>, note_dup])
   \<and> (\<exists>st'. deleteNote store_dup ''alice'' ''5x'' = Inr st'
            \<and> getNotes st' ''alice'' = [note_c])"
    by (auto simp add: ns sp fl simp del: filter.simps)
  moreover have "id_note (getNotes store_dup ''alice'' ! 0) \<noteq> ''5x''"
    using h3 by simp
  ultimately show ?thesis using h1 h2 h2' h4 by blast
qed

section \<open>Updating the title of a note\<close>

text \<open>
  C2, as the code has it. Take a note of a user's collection that is the first one of its
  id (every note, when the ids of the collection are distinct), and let the store accept
  the write. \<^verbatim>\<open>updateNote\<close> with only a title then returns that note with the new title and
  with \<^verbatim>\<open>updatedAt\<close> set to the reading of the clock; \<^verbatim>\<open>id\<close>, \<^verbatim>\<open>createdAt\<close>, \<^verbatim>\<open>body\<close> and
  \<^verbatim>\<open>imageUri\<close> are those of the old note, and every other note of the stored collection is
  unchanged. The new \<^verbatim>\<open>updatedAt\<close> is greater than the old one exactly when the clock
  reading is.
\<close>

theorem updateNote_title_only:
  assumes "i < length (getNotes st username)"
    and "\<forall>k<i. id_note (getNotes st username ! k) \<noteq> id_note (getNotes st username ! i)"
    and "\<not> setItem_throws st"
  shows "\<exists>n' st'.
      updateNote st username (id_note (getNotes st username ! i)) (title_only t) now = Inr (n', st')
      \<and> n' = (getNotes st username ! i)\<lparr>title := t, updatedAt := now\<rparr>
      \<and> title n' = t \<and> updatedAt n' = now
      \<and> id_note n' = id_note (getNotes st username ! i)
      \<and> createdAt n' = createdAt (getNotes st username ! i)
      \<and> body n' = body (getNotes st username ! i)
      \<and> imageUri n' = imageUri (getNotes st username ! i)
      \<and> getNotes st' username = (getNotes st username)[i := n']
      \<and> (updatedAt (getNotes st username ! i) < updatedAt n'
           \<longleftrightarrow> updatedAt (getNotes st username ! i) < now)"
proof -
  let ?ns = "getNotes st username"
  let ?n' = "(?ns ! i)\<lparr>title := t, updatedAt := now\<rparr>"
  let ?st' = "st\<lparr>items := (items st)(getNotesKey username \<mapsto> NotesJson (?ns[i := ?n']))\<rparr>"
  have sp: "spread (?ns ! i) (title_only t) now = ?n'"
    by (simp add: spread_def title_only_def)
  have fi: "findIndex (\<lambda>note. id_note note = id_note (?ns ! i)) ?ns = Some i"
    using assms(1,2) by (intro findIndex_first) auto
  have u: "updateNote st username (id_note (?ns ! i)) (title_only t) now = Inr (?n', ?st')"
    using updateNote_ok [OF fi assms(3), of "title_only t" now] by (simp add: sp)
  have g: "getNotes ?st' username = ?ns[i := ?n']"
    using assms(1) by (rule getNotes_after_update)
  have f: "title ?n' = t \<and> updatedAt ?n' = now \<and> id_note ?n' = id_note (?ns ! i)
      \<and> createdAt ?n' = createdAt (?ns ! i) \<and> body ?n' = body (?ns ! i)
      \<and> imageUri ?n' = imageUri (?ns ! i)"
    by simp
  from u g f show ?thesis by auto
qed

theorem updateNote_title_only_witness:
  "Suc 0 < length (getNotes (store_of ''alice'' [note_c, note_a]) ''alice'')
   \<and> id_note (getNotes (store_of ''alice'' [note_c, note_a]) ''alice'' ! 0)
          \<noteq> id_note (getNotes (store_of ''alice'' [note_c, note_a]) ''alice'' ! Suc 0)
   \<and> \<not> setItem_throws (store_of ''alice'' [note_c, note_a])
   \<and> (\<exists>n' st'.
      updateNote (store_of ''alice'' [note_c, note_a]) ''alice'' ''5x'' (title_only ''C'') 9 = Inr (n', st')
      \<and> n' = note_a\<lparr>title := ''C'', updatedAt := 9\<rparr>
      \<and> getNotes st' ''alice'' = [note_c, n']
      \<and> updatedAt note_a < updatedAt n')"
proof -
  let ?st = "store_of ''alice'' [note_c, note_a]"
  have ns: "getNotes ?st ''alice'' = [note_c, note_a]"
    by (rule getNotes_store_of)
  have h1: "Suc 0 < length (getNotes ?st ''alice'')"
    by (simp add: ns)
  have h2: "\<forall>k<Suc 0. id_note (getNotes ?st ''alice'' ! k) \<noteq> id_note (getNotes ?st ''alice'' ! Suc 0)"
    by (simp add: getNotes_store_of note_a_def note_c_def)
  have h3: "\<not> setItem_throws ?st"
    by (simp add: store_of_def)
  have i: "id_note note_a = ''5x''" "updatedAt note_a < 9"
    by (simp_all add: note_a_def)
  have h2': "id_note (getNotes ?st ''alice'' ! 0) \<noteq> id_note (getNotes ?st ''alice'' ! Suc 0)"
    using h2 by simp
  from updateNote_title_only [OF h1 h2 h3, of "''C''" 9]
  have "\<exists>n' st'.
      updateNote ?st ''alice'' ''5x'' (title_only ''C'') 9 = Inr (n', st')
      \<and> n' = note_a\<lparr>title := ''C'', updatedAt := 9\<rparr>
      \<and> getNotes st' ''alice'' = [note_c, n']
      \<and> updatedAt note_a < updatedAt n'"
    by (auto simp add: ns i)
  with h1 h2' h3 show ?thesis by blast
qed

theorem updateNote_title_only_counterexample:
  "updateNote (store_of ''alice'' [note_a]) ''alice'' (id_note note_a) (title_only ''C'') 7
     = Inr (note_a\<lparr>title := ''C''\<rparr>, store_of ''alice'' [note_a\<lparr>title := ''C''\<rparr>])
   \<and> \<not> updatedAt note_a < updatedAt (note_a\<lparr>title := ''C''\<rparr>)
   \<and> getNotes store_dup ''alice'' = [note_c, note_a, note_dup]
   \<and> updateNote store_dup ''alice'' (id_note note_dup) (title_only ''C'') 9
     = Inr (note_a\<lparr>title := ''C'', updatedAt := 9\<rparr>,
            store_of ''alice'' [note_c, note_a\<lparr>title := ''C'', updatedAt := 9\<rparr>, note_dup])
   \<and> note_a \<noteq> note_dup"
proof -
  have a: "findIndex (\<lambda>note. id_note note = id_note note_a) (getNotes (store_of ''alice'' [note_a]) ''alice'') = Some 0"
    by (simp add: getNotes_store_of)
  have wa: "\<not> setItem_throws (store_of ''alice'' [note_a])"
    by (simp add: store_of_def)
  have sa: "spread note_a (title_only ''C'') 7 = note_a\<lparr>title := ''C''\<rparr>"
    by (simp add: spread_def title_only_def note_a_def)
  have 1: "updateNote (store_of ''alice'' [note_a]) ''alice'' (id_note note_a) (title_only ''C'') 7
     = Inr (note_a\<lparr>title := ''C''\<rparr>, store_of ''alice'' [note_a\<lparr>title := ''C''\<rparr>])"
    using updateNote_ok [OF a wa, of "title_only ''C''" 7]
    by (simp add: getNotes_store_of sa) (simp add: store_of_def)
  have 2: "\<not> updatedAt note_a < updatedAt (note_a\<lparr>title := ''C''\<rparr>)"
    by simp
  have 3: "getNotes store_dup ''alice'' = [note_c, note_a, note_dup]"
    by (simp add: store_dup_def getNotes_store_of)
  have b: "findIndex (\<lambda>note. id_note note = id_note note_dup) (getNotes store_dup ''alice'') = Some (Suc 0)"
    by (simp add: 3 note_a_def note_c_def note_dup_def)
  have wb: "\<not> setItem_throws store_dup"
    by (simp add: store_dup_def store_of_def)
  have sb: "spread note_a (title_only ''C'') 9 = note_a\<lparr>title := ''C'', updatedAt := 9\<rparr>"
    by (simp add: spread_def title_only_def)
  have 4: "updateNote store_dup ''alice'' (id_note note_dup) (title_only ''C'') 9
     = Inr (note_a\<lparr>title := ''C'', updatedAt := 9\<rparr>,
            store_of ''alice'' [note_c, note_a\<lparr>title := ''C'', updatedAt := 9\<rparr>, note_dup])"
    using updateNote_ok [OF b wb, of "title_only ''C''" 9]
    by (simp add: 3 sb) (simp add: store_dup_def store_of_def)
  have 5: "note_a \<noteq> note_dup"
    by (simp add: note_a_def note_dup_def)
  from 1 2 3 4 5 show ?thesis by blast
qed

section \<open>Creating a note and reading it back\<close>

text \<open>
  C3, as the code has it. When \<^verbatim>\<open>createNote\<close> succeeds and no note already stored for the
  username has the generated id, \<^verbatim>\<open>getNote\<close> with the returned id (its read of the store
  not being rejected) returns the created note. Its title and body are those given, its id
  is the decimal rendering of the first clock reading followed by the random suffix and so
  is not empty, and \<^verbatim>\<open>createdAt\<close> and \<^verbatim>\<open>updatedAt\<close> are the second and the third reading of
  the clock.
\<close>

theorem createNote_then_getNote:
  assumes "createNote st username input now1 rnd now2 now3 = Inr (newNote, st')"
    and "\<forall>n\<in>set (getNotes st username). id_note n \<noteq> toString now1 @ rnd"
  shows "getNote (st'\<lparr>getItem_throws := False\<rparr>) username (id_note newNote) = Some newNote
     \<and> title newNote = title input \<and> body newNote = body input
     \<and> id_note newNote = toString now1 @ rnd \<and> id_note newNote \<noteq> []
     \<and> createdAt newNote = now2 \<and> updatedAt newNote = now3"
proof -
  let ?ns = "getNotes st username"
  from createNote_Inr [OF assms(1)]
  have n: "newNote = \<lparr>title = title input, body = body input, imageUri = imageUri input,
                       id_note = toString now1 @ rnd, createdAt = now2, updatedAt = now3\<rparr>"
    and w: "setItem st (getNotesKey username) (NotesJson (?ns @ [newNote])) = Inr st'"
    by blast+
  from w have st': "st' = st\<lparr>items := (items st)(getNotesKey username \<mapsto> NotesJson (?ns @ [newNote]))\<rparr>"
    by (auto simp: setItem_def split: if_splits)
  have g: "getNotes (st'\<lparr>getItem_throws := False\<rparr>) username = ?ns @ [newNote]"
    by (rule getNotes_read) (simp_all add: st')
  have i: "id_note newNote = toString now1 @ rnd"
    by (simp add: n)
  have "find (\<lambda>note. id_note note = id_note newNote) (?ns @ [newNote]) = Some newNote"
    using assms(2) by (intro find_append_fresh) (simp_all add: i)
  then have r: "getNote (st'\<lparr>getItem_throws := False\<rparr>) username (id_note newNote) = Some newNote"
    by (simp add: getNote_def g)
  have f: "title newNote = title input \<and> body newNote = body input
     \<and> id_note newNote \<noteq> [] \<and> createdAt newNote = now2 \<and> updatedAt newNote = now3"
    by (simp add: n toString_nonempty)
  from r i f show ?thesis by blast
qed

theorem createNote_then_getNote_witness:
  "createNote (store_of ''alice'' [note_c]) ''alice'' input_ab 5 ''x'' 5 5
     = Inr (note_new, store_of ''alice'' [note_c, note_new])
   \<and> getNotes (store_of ''alice'' [note_c]) ''alice'' = [note_c]
   \<and> id_note note_c \<noteq> toString 5 @ ''x''
   \<and> getNote (store_of ''alice'' [note_c, note_new]\<lparr>getItem_throws := False\<rparr>) ''alice'' ''5x''
       = Some note_new
   \<and> title note_new = ''A'' \<and> body note_new = ''B'' \<and> id_note note_new = ''5x''
   \<and> createdAt note_new = 5 \<and> updatedAt note_new = 5"
proof -
  have w: "\<not> setItem_throws (store_of ''alice'' [note_c])"
    by (simp add: store_of_def)
  have h1: "createNote (store_of ''alice'' [note_c]) ''alice'' input_ab 5 ''x'' 5 5
     = Inr (note_new, store_of ''alice'' [note_c, note_new])"
    using createNote_ok [OF w, of "''alice''" input_ab 5 "''x''" 5 5]
    by (simp add: getNotes_store_of toString_5 input_ab_def note_new_def) (simp add: store_of_def)
  have h2: "\<forall>n\<in>set (getNotes (store_of ''alice'' [note_c]) ''alice''). id_note n \<noteq> toString 5 @ ''x''"
    by (simp add: getNotes_store_of toString_5 note_c_def)
  have f: "id_note note_new = ''5x''" "title input_ab = ''A''" "body input_ab = ''B''"
    by (simp_all add: note_new_def input_ab_def)
  have g: "getNotes (store_of ''alice'' [note_c]) ''alice'' = [note_c]"
    by (rule getNotes_store_of)
  have h2': "id_note note_c \<noteq> toString 5 @ ''x''"
    using h2 by (simp add: g)
  from createNote_then_getNote [OF h1 h2] h1 g h2' show ?thesis
    by (simp add: f)
qed

theorem createNote_then_getNote_counterexample:
  "createNote store_empty ''alice'' input_ab 5 ''x'' 5 6 = Inr (note_tick, store_of ''alice'' [note_tick])
   \<and> getNote (store_of ''alice'' [note_tick]) ''alice'' (id_note note_tick) = Some note_tick
   \<and> createdAt note_tick \<noteq> updatedAt note_tick
   \<and> createNote (store_of ''alice'' [note_dup]) ''alice'' input_ab 5 ''x'' 5 5
       = Inr (note_new, store_of ''alice'' [note_dup, note_new])
   \<and> getNote (store_of ''alice'' [note_dup, note_new]) ''alice'' (id_note note_new) = Some note_dup
   \<and> title note_dup \<noteq> title input_ab"
proof -
  have we: "\<not> setItem_throws store_empty"
    by (simp add: store_empty_def)
  have ge: "getNotes store_empty ''alice'' = []"
    by (simp add: getNotes_def getItem_def store_empty_def)
  have 1: "createNote store_empty ''alice'' input_ab 5 ''x'' 5 6
             = Inr (note_tick, store_of ''alice'' [note_tick])"
    using createNote_ok [OF we, of "''alice''" input_ab 5 "''x''" 5 6]
    by (simp add: ge toString_5 input_ab_def note_tick_def) (simp add: store_of_def store_empty_def)
  have 2: "getNote (store_of ''alice'' [note_tick]) ''alice'' (id_note note_tick) = Some note_tick"
    by (simp add: getNote_def getNotes_store_of)
  have 3: "createdAt note_tick \<noteq> updatedAt note_tick"
    by (simp add: note_tick_def)
  have wd: "\<not> setItem_throws (store_of ''alice'' [note_dup])"
    by (simp add: store_of_def)
  have 4: "createNote (store_of ''alice'' [note_dup]) ''alice'' input_ab 5 ''x'' 5 5
       = Inr (note_new, store_of ''alice'' [note_dup, note_new])"
    using createNote_ok [OF wd, of "''alice''" input_ab 5 "''x''" 5 5]
    by (simp add: getNotes_store_of toString_5 input_ab_def note_new_def) (simp add: store_of_def)
  have 5: "getNote (store_of ''alice'' [note_dup, note_new]) ''alice'' (id_note note_new) = Some note_dup"
    by (simp add: getNote_def getNotes_store_of note_dup_def note_new_def)
  have 6: "title note_dup \<noteq> title input_ab"
    by (simp add: note_dup_def input_ab_def)
  from 1 2 3 4 5 6 show ?thesis by blast
qed

section \<open>Signing up with a username that is taken\<close>

text \<open>
  C4. When the account list read from the store holds an account of exactly the given
  username, \<^verbatim>\<open>signUp\<close> returns the failure \<^verbatim>\<open>'Username already exists'\<close>, for every
  password, and the store it leaves is the store it found: nothing is written.
\<close>

theorem signUp_duplicate_username:
  assumes "getItem st USERS_KEY = Inr (Some usersJson)"
    and "JSON_parse_users usersJson = Inr users"
    and "username \<in> set (map username_of users)"
  shows "signUp st username password
           = (\<lparr>success = False, error = Some ''Username already exists''\<rparr>, st)"
proof -
  have j: "usersJson = UsersJson users"
    using assms(2) by (rule JSON_parse_users_Inr)
  have "list_ex (\<lambda>user. username_of user = username) users"
    using assms(3) by (auto simp: list_ex_iff)
  then show ?thesis
    using assms(1) by (simp add: signUp_def j truthy_def)
qed

theorem signUp_duplicate_username_witness:
  "getItem store_users USERS_KEY
     = Inr (Some (UsersJson [\<lparr>username_of = ''alice'', password_of = ''secret''\<rparr>]))
   \<and> JSON_parse_users (UsersJson [\<lparr>username_of = ''alice'', password_of = ''secret''\<rparr>])
     = Inr [\<lparr>username_of = ''alice'', password_of = ''secret''\<rparr>]
   \<and> ''alice'' \<in> set (map username_of [\<lparr>username_of = ''alice'', password_of = ''secret''\<rparr>])
   \<and> signUp store_users ''alice'' ''other''
        = (\<lparr>success = False, error = Some ''Username already exists''\<rparr>, store_users)"
proof -
  have h1: "getItem store_users USERS_KEY
     = Inr (Some (UsersJson [\<lparr>username_of = ''alice'', password_of = ''secret''\<rparr>]))"
    by (simp add: getItem_def store_users_def)
  have h2: "JSON_parse_users (UsersJson [\<lparr>username_of = ''alice'', password_of = ''secret''\<rparr>])
     = Inr [\<lparr>username_of = ''alice'', password_of = ''secret''\<rparr>]"
    by simp
  have h3: "''alice'' \<in> set (map username_of [\<lparr>username_of = ''alice'', password_of = ''secret''\<rparr>])"
    by simp
  from signUp_duplicate_username [OF h1 h2 h3, of "''other''"] h1 h2 h3 show ?thesis
    by blast
qed

section \<open>Failed logins look alike\<close>

text \<open>
  C5. Over one account list, \<^verbatim>\<open>login\<close> with a registered username and a password that
  matches no account of that name, and \<^verbatim>\<open>login\<close> with a username that is not registered
  (and any password), return the same result, the failure
  \<^verbatim>\<open>'Invalid username or password'\<close>, and leave the same store.
\<close>

theorem login_failures_indistinguishable:
  assumes "getItem st USERS_KEY = Inr (Some usersJson)"
    and "JSON_parse_users usersJson = Inr users"
    and "known \<in> set (map username_of users)"
    and "\<lparr>username_of = known, password_of = wrong\<rparr> \<notin> set users"
    and "unknown \<notin> set (map username_of users)"
  shows "login st known wrong
           = (\<lparr>success = False, error = Some ''Invalid username or password''\<rparr>, st)
       \<and> login st unknown password = login st known wrong"
proof -
  have j: "usersJson = UsersJson users"
    using assms(2) by (rule JSON_parse_users_Inr)
  have "\<not> (\<exists>u. u \<in> set users \<and> username_of u = known \<and> password_of u = wrong)"
  proof
    assume "\<exists>u. u \<in> set users \<and> username_of u = known \<and> password_of u = wrong"
    then obtain u where u: "u \<in> set users" "username_of u = known" "password_of u = wrong"
      by blast
    then have "u = \<lparr>username_of = known, password_of = wrong\<rparr>"
      by simp
    with u(1) assms(4) show False by simp
  qed
  then have f1: "find (\<lambda>u. username_of u = known \<and> password_of u = wrong) users = None"
    by (simp add: find_None_iff)
  have "\<not> (\<exists>u. u \<in> set users \<and> username_of u = unknown \<and> password_of u = password)"
    using assms(5) by auto
  then have f2: "find (\<lambda>u. username_of u = unknown \<and> password_of u = password) users = None"
    by (simp add: find_None_iff)
  have l1: "login st known wrong
           = (\<lparr>success = False, error = Some ''Invalid username or password''\<rparr>, st)"
    using assms(1) by (simp add: login_def j truthy_def f1)
  have l2: "login st unknown password
           = (\<lparr>success = False, error = Some ''Invalid username or password''\<rparr>, st)"
    using assms(1) by (simp add: login_def j truthy_def f2)
  from l1 l2 show ?thesis by simp
qed

theorem login_failures_indistinguishable_witness:
  "getItem store_users USERS_KEY
     = Inr (Some (UsersJson [\<lparr>username_of = ''alice'', password_of = ''secret''\<rparr>]))
   \<and> JSON_parse_users (UsersJson [\<lparr>username_of = ''alice'', password_of = ''secret''\<rparr>])
     = Inr [\<lparr>username_of = ''alice'', password_of = ''secret''\<rparr>]
   \<and> ''alice'' \<in> set (map username_of [\<lparr>username_of = ''alice'', password_of = ''secret''\<rparr>])
   \<and> \<lparr>username_of = ''alice'', password_of = ''guess''\<rparr>
        \<notin> set [\<lparr>username_of = ''alice'', password_of = ''secret''\<rparr>]
   \<and> ''mallory'' \<notin> set (map username_of [\<lparr>username_of = ''alice'', password_of = ''secret''\<rparr>])
   \<and> login store_users ''alice'' ''guess''
        = (\<lparr>success = False, error = Some ''Invalid username or password''\<rparr>, store_users)
   \<and> login store_users ''mallory'' ''guess'' = login store_users ''alice'' ''guess''"
proof -
  have h1: "getItem store_users USERS_KEY
     = Inr (Some (UsersJson [\<lparr>username_of = ''alice'', password_of = ''secret''\<rparr>]))"
    by (simp add: getItem_def store_users_def)
  have h2: "JSON_parse_users (UsersJson [\<lparr>username_of = ''alice'', password_of = ''secret''\<rparr>])
     = Inr [\<lparr>username_of = ''alice'', password_of = ''secret''\<rparr>]"
    by simp
  have h3: "''alice'' \<in> set (map username_of [\<lparr>username_of = ''alice'', password_of = ''secret''\<rparr>])"
    by simp
  have h4: "\<lparr>username_of = ''alice'', password_of = ''guess''\<rparr>
        \<notin> set [\<lparr>username_of = ''alice'', password_of = ''secret''\<rparr>]"
    by simp
  have h5: "''mallory'' \<notin> set (map username_of [\<lparr>username_of = ''alice'', password_of = ''secret''\<rparr>])"
    by simp
  from login_failures_indistinguishable [OF h1 h2 h3 h4 h5, of "''guess''"] h1 h2 h3 h4 h5
  show ?thesis by blast
qed

section \<open>Searching the notes\<close>



end
